theory Spec2Isabelle
  imports
    Complex_Main
    "HOL-Library.Sublist"
    "HOL-Library.Multiset"
    "HOL-Library.Char_ord"
    "HOL-Library.List_Lexorder"
    "HOL-Library.Product_Lexorder"
begin

section \<open>JavaScript values and objects\<close>

text \<open>
  The handlers of \<^verbatim>\<open>src/state/api.ts\<close> receive backend rows typed \<^verbatim>\<open>any\<close> and build
  object literals from them. TypeScript's interfaces are erased at run time, so a row and a
  view model are modelled as what they are then: objects, that is lists of named
  properties, holding JavaScript values. Numbers are exact rationals (the model leaves
  the rounding of IEEE doubles out).
\<close>

datatype jsval = JUndefined | JNull | JNum rat | JStr string

type_synonym jsobj = "(string \<times> jsval) list"

text \<open>Property access \<^verbatim>\<open>obj.k\<close>: a property the object lacks reads as \<^verbatim>\<open>undefined\<close>.\<close>

definition js_get :: "jsobj \<Rightarrow> string \<Rightarrow> jsval" where
  "js_get obj k = (case map_of obj k of None \<Rightarrow> JUndefined | Some v \<Rightarrow> v)"

section \<open>Backend replies and thrown values\<close>

text \<open>
  A request of the backend client resolves to \<^verbatim>\<open>{ data, error }\<close>; the client does not
  reject, a failure of any kind (connectivity included) is an \<^verbatim>\<open>error\<close> object with a
  message.
\<close>

record PostgrestError =
  message :: string
  details :: string
  hint :: string
  code :: string

record 'd response =
  data :: "'d option"
  error :: "PostgrestError option"

text \<open>
  What a \<^verbatim>\<open>try\<close> block can throw: the backend's error object (\<^verbatim>\<open>throw error\<close>), or the
  run time's TypeError when a property is read on \<^verbatim>\<open>null\<close> or \<^verbatim>\<open>undefined\<close>.
\<close>

datatype thrown = Thrown PostgrestError | TypeError string

text \<open>The TypeError's message, in the wording of the V8 engine.\<close>

definition cannot_read :: "string \<Rightarrow> string \<Rightarrow> string" where
  "cannot_read what p =
     ''Cannot read properties of '' @ what @ '' (reading '' @ [CHR 0x27] @ p @ [CHR 0x27] @ '')''"

text \<open>\<^verbatim>\<open>error.message\<close> in a \<^verbatim>\<open>catch (error: any)\<close> clause.\<close>

fun error_message :: "thrown \<Rightarrow> jsval" where
  "error_message (Thrown e) = JStr (message e)"
| "error_message (TypeError m) = JStr m"

text \<open>
  \<^verbatim>\<open>catch (error: any) { return { error: { status: 500, data: error.message } }; }\<close>:
  a handler returns \<open>Inl\<close> the error object or \<open>Inr\<close> the payload of \<^verbatim>\<open>{ data: ... }\<close>.
\<close>

definition catch_500 :: "thrown + 'a \<Rightarrow> jsobj + 'a" where
  "catch_500 r =
     (case r of
        Inl e \<Rightarrow> Inl [(''status'', JNum 500), (''data'', error_message e)]
      | Inr v \<Rightarrow> Inr v)"

text \<open>\<^verbatim>\<open>xs.map(f)\<close> where \<open>f\<close> may throw: the first throw ends the loop.\<close>

fun map_throwing :: "('a \<Rightarrow> thrown + 'b) \<Rightarrow> 'a list \<Rightarrow> thrown + 'b list" where
  "map_throwing f [] = Inr []"
| "map_throwing f (x # xs) =
     (case f x of
        Inl e \<Rightarrow> Inl e
      | Inr y \<Rightarrow> (case map_throwing f xs of Inl e \<Rightarrow> Inl e | Inr ys \<Rightarrow> Inr (y # ys)))"

text \<open>\<^verbatim>\<open>reply.data.map(f)\<close>: reading \<^verbatim>\<open>map\<close> on a \<^verbatim>\<open>null\<close> data throws.\<close>

definition data_map :: "('a \<Rightarrow> thrown + 'b) \<Rightarrow> 'a list option \<Rightarrow> thrown + 'b list" where
  "data_map f d =
     (case d of
        None \<Rightarrow> Inl (TypeError (cannot_read ''null'' ''map''))
      | Some rows \<Rightarrow> map_throwing f rows)"

text \<open>
  \<^verbatim>\<open>v.toString()\<close> on a value typed \<^verbatim>\<open>any\<close>. The rendering of a number is the run
  time's \<^verbatim>\<open>Number.prototype.toString\<close>, taken as the parameter \<open>num\<close>.
\<close>

definition toString :: "(rat \<Rightarrow> string) \<Rightarrow> jsval \<Rightarrow> thrown + jsval" where
  "toString num v =
     (case v of
        JUndefined \<Rightarrow> Inl (TypeError (cannot_read ''undefined'' ''toString''))
      | JNull \<Rightarrow> Inl (TypeError (cannot_read ''null'' ''toString''))
      | JNum n \<Rightarrow> Inr (JStr (num n))
      | JStr s \<Rightarrow> Inr (JStr s))"

section \<open>The query builder\<close>

text \<open>
  The chains \<^verbatim>\<open>supabase.from(t).select("*").ilike(c, p).order(c, { ascending }).limit(n)\<close>
  build one read request; \<^verbatim>\<open>from(t).insert([row]).select().single()\<close> builds one write
  request that returns the created row.
\<close>

record query =
  q_table :: string
  q_filters :: "(string \<times> string) list"
  q_order :: "(string \<times> bool) option"
  q_limit :: "nat option"

definition from_table :: "string \<Rightarrow> query" where
  "from_table t = \<lparr>q_table = t, q_filters = [], q_order = None, q_limit = None\<rparr>"

text \<open>\<^verbatim>\<open>.select("*")\<close>: every column of the row.\<close>

definition select_all :: "query \<Rightarrow> query" where
  "select_all q = q"

definition ilike :: "string \<Rightarrow> string \<Rightarrow> query \<Rightarrow> query" where
  "ilike column pattern q = q\<lparr>q_filters := q_filters q @ [(column, pattern)]\<rparr>"

definition order_by :: "string \<Rightarrow> bool \<Rightarrow> query \<Rightarrow> query" where
  "order_by column ascending q = q\<lparr>q_order := Some (column, ascending)\<rparr>"

definition limit_rows :: "nat \<Rightarrow> query \<Rightarrow> query" where
  "limit_rows n q = q\<lparr>q_limit := Some n\<rparr>"

record insert_query =
  i_table :: string
  i_row :: jsobj

definition insert_single :: "string \<Rightarrow> jsobj \<Rightarrow> insert_query" where
  "insert_single t row = \<lparr>i_table = t, i_row = row\<rparr>"

section \<open>The handlers of api.ts\<close>

text \<open>
  The object literals of the \<^verbatim>\<open>map\<close> callbacks. The literal for a product is written
  three times in the source (dashboard, product list, created product) with the same
  properties; it is one definition here.
\<close>

definition to_product :: "jsobj \<Rightarrow> jsobj" where
  "to_product p =
     [(''productId'', js_get p ''product_id''),
      (''name'', js_get p ''name''),
      (''price'', js_get p ''price''),
      (''rating'', js_get p ''rating''),
      (''stockQuantity'', js_get p ''stock_quantity'')]"

definition to_sales_summary :: "jsobj \<Rightarrow> jsobj" where
  "to_sales_summary s =
     [(''salesSummaryId'', js_get s ''sales_summary_id''),
      (''totalValue'', js_get s ''total_value''),
      (''changePercentage'', js_get s ''change_percentage''),
      (''date'', js_get s ''date'')]"

definition to_purchase_summary :: "jsobj \<Rightarrow> jsobj" where
  "to_purchase_summary p =
     [(''purchaseSummaryId'', js_get p ''purchase_summary_id''),
      (''totalPurchased'', js_get p ''total_purchased''),
      (''changePercentage'', js_get p ''change_percentage''),
      (''date'', js_get p ''date'')]"

definition to_expense_summary :: "jsobj \<Rightarrow> jsobj" where
  "to_expense_summary e =
     [(''expenseSummarId'', js_get e ''expense_summary_id''),
      (''totalExpenses'', js_get e ''total_expenses''),
      (''date'', js_get e ''date'')]"

text \<open>The one callback that can throw: \<^verbatim>\<open>amount: e.amount.toString()\<close>.\<close>

definition to_expense_by_category :: "(rat \<Rightarrow> string) \<Rightarrow> jsobj \<Rightarrow> thrown + jsobj" where
  "to_expense_by_category num e =
     (case toString num (js_get e ''amount'') of
        Inl t \<Rightarrow> Inl t
      | Inr a \<Rightarrow>
          Inr [(''expenseByCategorySummaryId'', js_get e ''expense_by_category_id''),
               (''category'', js_get e ''category''),
               (''amount'', a),
               (''date'', js_get e ''date'')])"

definition to_user :: "jsobj \<Rightarrow> jsobj" where
  "to_user u =
     [(''userId'', js_get u ''user_id''),
      (''name'', js_get u ''name''),
      (''email'', js_get u ''email'')]"

record DashboardMetrics =
  popularProducts :: "jsobj list"
  salesSummary :: "jsobj list"
  purchaseSummary :: "jsobj list"
  expenseSummary :: "jsobj list"
  expenseByCategorySummary :: "jsobj list"

text \<open>The five read requests of the dashboard, in the order of the \<^verbatim>\<open>Promise.all\<close> array.\<close>

definition products_top5_query :: query where
  "products_top5_query =
     limit_rows 5 (order_by ''stock_quantity'' False (select_all (from_table ''products'')))"

definition sales_summary_query :: query where
  "sales_summary_query = order_by ''date'' True (select_all (from_table ''sales_summary''))"

definition purchase_summary_query :: query where
  "purchase_summary_query = order_by ''date'' True (select_all (from_table ''purchase_summary''))"

definition expense_summary_query :: query where
  "expense_summary_query = order_by ''date'' True (select_all (from_table ''expense_summary''))"

definition expense_by_category_query :: query where
  "expense_by_category_query =
     order_by ''amount'' False (select_all (from_table ''expense_by_category''))"

text \<open>
  \<open>getDashboardMetrics\<close>: the client answers the five requests; \<^verbatim>\<open>Promise.all\<close> waits for
  all five replies (none rejects), then the errors are looked at in the order of the
  array and the first one found is thrown; otherwise the five row sets are mapped.
\<close>

definition getDashboardMetrics ::
    "(rat \<Rightarrow> string) \<Rightarrow> (query \<Rightarrow> jsobj list response) \<Rightarrow> jsobj + DashboardMetrics" where
  "getDashboardMetrics num supabase =
     catch_500
       (let products = supabase products_top5_query;
            salesSummary = supabase sales_summary_query;
            purchaseSummary = supabase purchase_summary_query;
            expenseSummary = supabase expense_summary_query;
            expenseByCategory = supabase expense_by_category_query
        in (case error products of Some e \<Rightarrow> Inl (Thrown e) | None \<Rightarrow>
           (case error salesSummary of Some e \<Rightarrow> Inl (Thrown e) | None \<Rightarrow>
           (case error purchaseSummary of Some e \<Rightarrow> Inl (Thrown e) | None \<Rightarrow>
           (case error expenseSummary of Some e \<Rightarrow> Inl (Thrown e) | None \<Rightarrow>
           (case error expenseByCategory of Some e \<Rightarrow> Inl (Thrown e) | None \<Rightarrow>
           (case data_map (\<lambda>p. Inr (to_product p)) (data products) of
              Inl t \<Rightarrow> Inl t | Inr pp \<Rightarrow>
           (case data_map (\<lambda>s. Inr (to_sales_summary s)) (data salesSummary) of
              Inl t \<Rightarrow> Inl t | Inr ss \<Rightarrow>
           (case data_map (\<lambda>p. Inr (to_purchase_summary p)) (data purchaseSummary) of
              Inl t \<Rightarrow> Inl t | Inr ps \<Rightarrow>
           (case data_map (\<lambda>e. Inr (to_expense_summary e)) (data expenseSummary) of
              Inl t \<Rightarrow> Inl t | Inr es \<Rightarrow>
           (case data_map (to_expense_by_category num) (data expenseByCategory) of
              Inl t \<Rightarrow> Inl t | Inr ec \<Rightarrow>
              Inr \<lparr>popularProducts = pp, salesSummary = ss, purchaseSummary = ps,
                   expenseSummary = es, expenseByCategorySummary = ec\<rparr>)))))))))))"

text \<open>
  \<open>getProducts\<close>: the argument is \<^verbatim>\<open>string | void\<close>; \<^verbatim>\<open>if (search)\<close> is true for a
  non-empty string only.
\<close>

definition truthy :: "string option \<Rightarrow> bool" where
  "truthy search = (case search of None \<Rightarrow> False | Some s \<Rightarrow> s \<noteq> [])"

definition products_query :: "string option \<Rightarrow> query" where
  "products_query search =
     (let query = select_all (from_table ''products'')
      in if truthy search then ilike ''name'' (''%'' @ the search @ ''%'') query else query)"

definition getProducts ::
    "(query \<Rightarrow> jsobj list response) \<Rightarrow> string option \<Rightarrow> jsobj + jsobj list" where
  "getProducts supabase search =
     catch_500
       (let reply = supabase (products_query search)
        in (case error reply of Some e \<Rightarrow> Inl (Thrown e) | None \<Rightarrow>
              data_map (\<lambda>p. Inr (to_product p)) (data reply)))"

text \<open>
  \<open>createProduct\<close>: one insert request; the backend's state is passed through. Reading a
  property of a \<^verbatim>\<open>null\<close> data throws.
\<close>

definition new_product_row :: "jsobj \<Rightarrow> jsobj" where
  "new_product_row newProduct =
     [(''name'', js_get newProduct ''name''),
      (''price'', js_get newProduct ''price''),
      (''rating'', js_get newProduct ''rating''),
      (''stock_quantity'', js_get newProduct ''stockQuantity'')]"

definition createProduct ::
    "(insert_query \<Rightarrow> 'st \<Rightarrow> jsobj response \<times> 'st) \<Rightarrow> jsobj \<Rightarrow> 'st \<Rightarrow> (jsobj + jsobj) \<times> 'st" where
  "createProduct supabase newProduct st =
     (let (reply, st') = supabase (insert_single ''products'' (new_product_row newProduct)) st
      in (catch_500
            (case error reply of Some e \<Rightarrow> Inl (Thrown e) | None \<Rightarrow>
               (case data reply of
                  None \<Rightarrow> Inl (TypeError (cannot_read ''null'' ''product_id''))
                | Some row \<Rightarrow> Inr (to_product row))),
          st'))"

definition getUsers :: "(query \<Rightarrow> jsobj list response) \<Rightarrow> jsobj + jsobj list" where
  "getUsers supabase =
     catch_500
       (let reply = supabase (select_all (from_table ''users''))
        in (case error reply of Some e \<Rightarrow> Inl (Thrown e) | None \<Rightarrow>
              data_map (\<lambda>u. Inr (to_user u)) (data reply)))"

definition getExpensesByCategory ::
    "(rat \<Rightarrow> string) \<Rightarrow> (query \<Rightarrow> jsobj list response) \<Rightarrow> jsobj + jsobj list" where
  "getExpensesByCategory num supabase =
     catch_500
       (let reply = supabase expense_by_category_query
        in (case error reply of Some e \<Rightarrow> Inl (Thrown e) | None \<Rightarrow>
              data_map (to_expense_by_category num) (data reply)))"

section \<open>The backend\<close>

text \<open>
  The hosted database is not code of this repository; its schema is
  (\<^verbatim>\<open>supabase/migrations/20251028215138_create_inventory_management_schema.sql\<close>).
  The model below is the relational store answering the requests the handlers build:
  six tables of rows, a request evaluated as filter, then order, then limit. A row holds
  every column of its table, a SQL NULL as \<open>JNull\<close>. No server-side cap on the number of
  rows is modelled.
\<close>

record database =
  products :: "jsobj list"
  users :: "jsobj list"
  sales_summary :: "jsobj list"
  purchase_summary :: "jsobj list"
  expense_summary :: "jsobj list"
  expense_by_category :: "jsobj list"

definition table_of :: "database \<Rightarrow> string \<Rightarrow> jsobj list option" where
  "table_of db t =
     (if t = ''products'' then Some (products db)
      else if t = ''users'' then Some (users db)
      else if t = ''sales_summary'' then Some (sales_summary db)
      else if t = ''purchase_summary'' then Some (purchase_summary db)
      else if t = ''expense_summary'' then Some (expense_summary db)
      else if t = ''expense_by_category'' then Some (expense_by_category db)
      else None)"

subsection \<open>ILIKE\<close>

text \<open>
  SQL pattern matching: in a pattern \<^verbatim>\<open>%\<close> stands for any sequence of characters,
  \<^verbatim>\<open>_\<close> for any single character, and a backslash takes the character after it
  literally; any other character stands for itself. A pattern that ends in a lone
  backslash matches nothing here (the patterns the gateway builds end in \<^verbatim>\<open>%\<close>).
\<close>

fun like_match :: "string \<Rightarrow> string \<Rightarrow> bool" where
  "like_match [] t = (t = [])"
| "like_match (p # ps) t =
     (if p = CHR ''%'' then
        like_match ps t \<or> (case t of [] \<Rightarrow> False | c # cs \<Rightarrow> like_match (p # ps) cs)
      else if p = CHR ''_'' then
        (case t of [] \<Rightarrow> False | c # cs \<Rightarrow> like_match ps cs)
      else if p = CHR 0x5C then
        (case ps of
           [] \<Rightarrow> False
         | e # es \<Rightarrow> (case t of [] \<Rightarrow> False | c # cs \<Rightarrow> c = e \<and> like_match es cs))
      else (case t of [] \<Rightarrow> False | c # cs \<Rightarrow> c = p \<and> like_match ps cs))"

text \<open>Case folding, on the letters of ASCII.\<close>

definition to_lower :: "char \<Rightarrow> char" where
  "to_lower c =
     (case map_of (zip ''ABCDEFGHIJKLMNOPQRSTUVWXYZ'' ''abcdefghijklmnopqrstuvwxyz'') c of
        None \<Rightarrow> c
      | Some l \<Rightarrow> l)"

text \<open>
  The REST layer in front of the database reads \<^verbatim>\<open>*\<close> in a pattern as an alias of
  \<^verbatim>\<open>%\<close>; the database then matches without regard to case.
\<close>

definition star_alias :: "char \<Rightarrow> char" where
  "star_alias c = (if c = CHR ''*'' then CHR ''%'' else c)"

definition ilike_match :: "string \<Rightarrow> string \<Rightarrow> bool" where
  "ilike_match pattern t = like_match (map to_lower (map star_alias pattern)) (map to_lower t)"

text \<open>A filter holds of a row when the column is a text that matches; NULL matches nothing.\<close>

definition row_matches :: "jsobj \<Rightarrow> string \<times> string \<Rightarrow> bool" where
  "row_matches r f =
     (case js_get r (fst f) of JStr t \<Rightarrow> ilike_match (snd f) t | _ \<Rightarrow> False)"

subsection \<open>ORDER BY and LIMIT\<close>

text \<open>
  The sort key of a column value: numbers by value, texts (dates are ISO texts)
  lexicographically, NULL after every value. SQL leaves the order of rows with equal keys
  open; the model fixes one (that of a stable sort, reversed when descending), and no
  theorem below depends on it.
\<close>

definition ord_key :: "jsval \<Rightarrow> nat \<times> rat \<times> string" where
  "ord_key v =
     (case v of
        JNum n \<Rightarrow> (0, n, [])
      | JStr s \<Rightarrow> (1, 0, s)
      | JNull \<Rightarrow> (2, 0, [])
      | JUndefined \<Rightarrow> (3, 0, []))"

definition order_rows :: "(string \<times> bool) option \<Rightarrow> jsobj list \<Rightarrow> jsobj list" where
  "order_rows col_dir rows =
     (case col_dir of
        None \<Rightarrow> rows
      | Some (c, ascending) \<Rightarrow>
          (if ascending then sort_key (\<lambda>r. ord_key (js_get r c)) rows
           else rev (sort_key (\<lambda>r. ord_key (js_get r c)) rows)))"

definition limit_to :: "nat option \<Rightarrow> jsobj list \<Rightarrow> jsobj list" where
  "limit_to cap rows = (case cap of None \<Rightarrow> rows | Some n \<Rightarrow> take n rows)"

definition undefined_table :: "string \<Rightarrow> PostgrestError" where
  "undefined_table t =
     \<lparr>message = ''relation '' @ t @ '' does not exist'', details = [], hint = [],
      code = ''42P01''\<rparr>"

definition pg_select :: "database \<Rightarrow> query \<Rightarrow> jsobj list response" where
  "pg_select db q =
     (case table_of db (q_table q) of
        None \<Rightarrow> \<lparr>data = None, error = Some (undefined_table (q_table q))\<rparr>
      | Some rows \<Rightarrow>
          \<lparr>data = Some (limit_to (q_limit q) (order_rows (q_order q)
                     (filter (\<lambda>r. list_all (row_matches r) (q_filters q)) rows))),
           error = None\<rparr>)"

subsection \<open>INSERT into products\<close>

text \<open>
  \<^verbatim>\<open>CREATE TABLE products\<close> of the migration: \<^verbatim>\<open>product_id uuid PRIMARY KEY DEFAULT
  gen_random_uuid()\<close>, \<^verbatim>\<open>name text NOT NULL\<close>, \<^verbatim>\<open>price numeric NOT NULL CHECK (price >= 0)\<close>,
  \<^verbatim>\<open>rating numeric CHECK (rating >= 0 AND rating <= 5)\<close>, \<^verbatim>\<open>stock_quantity integer NOT NULL
  DEFAULT 0 CHECK (stock_quantity >= 0)\<close>, \<^verbatim>\<open>created_at\<close> and \<^verbatim>\<open>updated_at timestamptz
  DEFAULT now()\<close>. What the database generates for one insert is a parameter.
\<close>

record generated =
  gen_random_uuid :: string
  now :: string

text \<open>
  The insert request names the four columns of the row it sends. A property that is
  \<^verbatim>\<open>undefined\<close> is left out of the JSON body (JSON has no undefined), and its
  column is then NULL; the columns the request does not name take their defaults.
\<close>

definition sent_value :: "jsobj \<Rightarrow> string \<Rightarrow> jsval" where
  "sent_value row c = (case js_get row c of JUndefined \<Rightarrow> JNull | v \<Rightarrow> v)"

definition stored_product :: "generated \<Rightarrow> jsobj \<Rightarrow> jsobj" where
  "stored_product g row =
     [(''product_id'', JStr (gen_random_uuid g)),
      (''name'', sent_value row ''name''),
      (''price'', sent_value row ''price''),
      (''rating'', sent_value row ''rating''),
      (''stock_quantity'', sent_value row ''stock_quantity''),
      (''created_at'', JStr (now g)),
      (''updated_at'', JStr (now g))]"

definition pg_error :: "string \<Rightarrow> string \<Rightarrow> PostgrestError" where
  "pg_error c m = \<lparr>message = m, details = [], hint = [], code = c\<rparr>"

text \<open>
  The column types. A value of another type is refused by the model (the database would
  convert some of them); \<^verbatim>\<open>integer\<close> is a whole number of 32 bits.
\<close>

definition is_text :: "jsval \<Rightarrow> bool" where
  "is_text v = (case v of JStr s \<Rightarrow> True | JNull \<Rightarrow> True | _ \<Rightarrow> False)"

definition is_numeric :: "jsval \<Rightarrow> bool" where
  "is_numeric v = (case v of JNum n \<Rightarrow> True | JNull \<Rightarrow> True | _ \<Rightarrow> False)"

definition is_integer :: "jsval \<Rightarrow> bool" where
  "is_integer v =
     (case v of
        JNum n \<Rightarrow> n = of_int \<lfloor>n\<rfloor> \<and> - 2147483648 \<le> n \<and> n \<le> 2147483647
      | JNull \<Rightarrow> True
      | _ \<Rightarrow> False)"

definition num_in :: "jsval \<Rightarrow> (rat \<Rightarrow> bool) \<Rightarrow> bool" where
  "num_in v P = (case v of JNum n \<Rightarrow> P n | _ \<Rightarrow> True)"

text \<open>
  The first constraint a candidate row violates: column types, NOT NULL, the CHECK
  constraints, the primary key. A CHECK passes on NULL.
\<close>

definition product_violation :: "jsobj list \<Rightarrow> jsobj \<Rightarrow> PostgrestError option" where
  "product_violation existing row =
     (if \<not> is_text (js_get row ''name'') \<or> \<not> is_numeric (js_get row ''price'')
         \<or> \<not> is_numeric (js_get row ''rating'') \<or> \<not> is_integer (js_get row ''stock_quantity'')
      then Some (pg_error ''22P02'' ''invalid input syntax'')
      else if js_get row ''name'' = JNull
      then Some (pg_error ''23502'' ''null value in column name violates not-null constraint'')
      else if js_get row ''price'' = JNull
      then Some (pg_error ''23502'' ''null value in column price violates not-null constraint'')
      else if js_get row ''stock_quantity'' = JNull
      then Some (pg_error ''23502''
                   ''null value in column stock_quantity violates not-null constraint'')
      else if \<not> num_in (js_get row ''price'') (\<lambda>n. n \<ge> 0)
      then Some (pg_error ''23514''
                   ''new row for relation products violates check constraint products_price_check'')
      else if \<not> num_in (js_get row ''rating'') (\<lambda>n. n \<ge> 0 \<and> n \<le> 5)
      then Some (pg_error ''23514''
                   ''new row for relation products violates check constraint products_rating_check'')
      else if \<not> num_in (js_get row ''stock_quantity'') (\<lambda>n. n \<ge> 0)
      then Some (pg_error ''23514''
                   ''new row for relation products violates check constraint products_stock_quantity_check'')
      else if js_get row ''product_id'' \<in> set (map (\<lambda>r. js_get r ''product_id'') existing)
      then Some (pg_error ''23505''
                   ''duplicate key value violates unique constraint products_pkey'')
      else None)"

text \<open>
  One insert request with \<^verbatim>\<open>.select().single()\<close>: the row is stored whole or not at
  all, and the stored row is the reply. The gateway inserts into \<^verbatim>\<open>products\<close> only;
  the model refuses any other table.
\<close>

definition pg_insert :: "generated \<Rightarrow> insert_query \<Rightarrow> database \<Rightarrow> jsobj response \<times> database" where
  "pg_insert g q db =
     (if i_table q \<noteq> ''products''
      then (\<lparr>data = None, error = Some (pg_error ''42501'' ''insert not permitted'')\<rparr>, db)
      else
        (let row = stored_product g (i_row q)
         in (case product_violation (products db) row of
               Some e \<Rightarrow> (\<lparr>data = None, error = Some e\<rparr>, db)
             | None \<Rightarrow>
                 (\<lparr>data = Some row, error = None\<rparr>,
                  db\<lparr>products := products db @ [row]\<rparr>))))"

section \<open>Notions used to state the properties\<close>

text \<open>The five read requests of the dashboard, in the order their errors are looked at.\<close>

definition dashboard_queries :: "query list" where
  "dashboard_queries =
     [products_top5_query, sales_summary_query, purchase_summary_query,
      expense_summary_query, expense_by_category_query]"

definition failed :: "'d response \<Rightarrow> bool" where
  "failed r = (error r \<noteq> None)"

text \<open>A reply that carries rows and no error.\<close>

definition rows_reply :: "'d \<Rightarrow> 'd response" where
  "rows_reply d = \<lparr>data = Some d, error = None\<rparr>"

definition error_reply :: "PostgrestError \<Rightarrow> 'd response" where
  "error_reply e = \<lparr>data = None, error = Some e\<rparr>"

text \<open>
  ``The name contains \<open>s\<close> as a case-insensitive substring'': a contiguous run of the
  name's characters equals \<open>s\<close> after case folding.
\<close>

definition name_contains :: "string \<Rightarrow> jsobj \<Rightarrow> bool" where
  "name_contains s r =
     (case js_get r ''name'' of
        JStr n \<Rightarrow> sublist (map to_lower s) (map to_lower n)
      | _ \<Rightarrow> False)"

text \<open>The characters with a meaning of their own in a pattern sent to the backend.\<close>

definition pattern_char :: "char \<Rightarrow> bool" where
  "pattern_char c = (c = CHR ''%'' \<or> c = CHR ''_'' \<or> c = CHR 0x5C \<or> c = CHR ''*'')"

text \<open>\<^verbatim>\<open>name text NOT NULL\<close>: a stored product has a text as its name.\<close>

definition has_text_name :: "jsobj \<Rightarrow> bool" where
  "has_text_name r = (case js_get r ''name'' of JStr n \<Rightarrow> True | _ \<Rightarrow> False)"

text \<open>\<^verbatim>\<open>amount numeric NOT NULL\<close>: a stored expense-by-category row has a number as its amount.\<close>

definition has_numeric_amount :: "jsobj \<Rightarrow> bool" where
  "has_numeric_amount r = (case js_get r ''amount'' of JNum a \<Rightarrow> True | _ \<Rightarrow> False)"

definition amount_of :: "jsobj \<Rightarrow> rat" where
  "amount_of r = (case js_get r ''amount'' of JNum a \<Rightarrow> a | _ \<Rightarrow> 0)"

text \<open>A row whose amount is missing: \<^verbatim>\<open>null\<close> or \<^verbatim>\<open>undefined\<close>.\<close>

definition amount_missing :: "jsobj \<Rightarrow> bool" where
  "amount_missing r = (js_get r ''amount'' = JUndefined \<or> js_get r ''amount'' = JNull)"

text \<open>The order of two column values under ORDER BY.\<close>

definition sql_le :: "jsval \<Rightarrow> jsval \<Rightarrow> bool" where
  "sql_le v w = (ord_key v \<le> ord_key w)"

definition ascending_by :: "string \<Rightarrow> jsobj list \<Rightarrow> bool" where
  "ascending_by k xs = sorted_wrt (\<lambda>a b. sql_le (js_get a k) (js_get b k)) xs"

definition descending_by :: "string \<Rightarrow> jsobj list \<Rightarrow> bool" where
  "descending_by k xs = sorted_wrt (\<lambda>a b. sql_le (js_get b k) (js_get a k)) xs"

text \<open>
  The camelCase name equivalent to a snake\_case name: every underscore is dropped and
  the letter after it is capitalised (\<open>expense_summary_id\<close> becomes \<open>expenseSummaryId\<close>).
\<close>

definition to_upper :: "char \<Rightarrow> char" where
  "to_upper c =
     (case map_of (zip ''abcdefghijklmnopqrstuvwxyz'' ''ABCDEFGHIJKLMNOPQRSTUVWXYZ'') c of
        None \<Rightarrow> c
      | Some u \<Rightarrow> u)"

fun camelCase :: "string \<Rightarrow> string" where
  "camelCase [] = []"
| "camelCase [c] = [c]"
| "camelCase (c # d # cs) =
     (if c = CHR ''_'' then to_upper d # camelCase cs else c # camelCase (d # cs))"

text \<open>The view model \<open>v\<close> holds, under the camelCase name of each listed column, the row's value.\<close>

definition renamed :: "string list \<Rightarrow> jsobj \<Rightarrow> jsobj \<Rightarrow> bool" where
  "renamed columns r v = list_all (\<lambda>c. js_get v (camelCase c) = js_get r c) columns"

text \<open>What the view model of an expense-by-category row holds.\<close>

definition expense_by_category_view :: "(rat \<Rightarrow> string) \<Rightarrow> jsobj \<Rightarrow> jsobj \<Rightarrow> bool" where
  "expense_by_category_view num r v =
     (renamed [''category'', ''date''] r v
      \<and> js_get v ''expenseByCategorySummaryId'' = js_get r ''expense_by_category_id''
      \<and> toString num (js_get r ''amount'') = Inr (js_get v ''amount''))"

section \<open>Example data\<close>

text \<open>
  The decimal text of a whole number, as \<^verbatim>\<open>Number.prototype.toString\<close> renders the whole
  numbers below \<open>10\<^sup>2\<^sup>1\<close>. It stands for the parameter \<open>num\<close> in the examples, whose
  amounts are whole; the fraction of any other number is cut off.
\<close>

fun nat_digits :: "nat \<Rightarrow> string" where
  "nat_digits n =
     (if n < 10 then [''0123456789'' ! n]
      else nat_digits (n div 10) @ [''0123456789'' ! (n mod 10)])"

definition whole_number_text :: "rat \<Rightarrow> string" where
  "whole_number_text n =
     (if n < 0 then ''-'' @ nat_digits (nat \<lfloor>- n\<rfloor>) else nat_digits (nat \<lfloor>n\<rfloor>))"

text \<open>
  The rows the migration seeds (\<^verbatim>\<open>INSERT INTO products (name, price, rating,
  stock_quantity) VALUES ...\<close>), the values the database generates for the \<open>i\<close>-th of
  them being \<open>gen i\<close>.
\<close>

definition seed_product :: "generated \<Rightarrow> string \<Rightarrow> rat \<Rightarrow> rat \<Rightarrow> int \<Rightarrow> jsobj" where
  "seed_product g n price rating stock =
     stored_product g
       [(''name'', JStr n), (''price'', JNum price), (''rating'', JNum rating),
        (''stock_quantity'', JNum (of_int stock))]"

definition seed_products :: "(nat \<Rightarrow> generated) \<Rightarrow> jsobj list" where
  "seed_products gen =
     [seed_product (gen 0) ''Laptop'' (99999 / 100) (45 / 10) 50,
      seed_product (gen 1) ''Wireless Mouse'' (2999 / 100) (42 / 10) 200,
      seed_product (gen 2) ''Keyboard'' (7999 / 100) (47 / 10) 150,
      seed_product (gen 3) ''Monitor'' (29999 / 100) (46 / 10) 75,
      seed_product (gen 4) ''USB Cable'' (999 / 100) 4 500,
      seed_product (gen 5) ''Headphones'' (14999 / 100) (48 / 10) 100,
      seed_product (gen 6) ''Webcam'' (8999 / 100) (43 / 10) 80,
      seed_product (gen 7) ''Desk Lamp'' (3999 / 100) (41 / 10) 120]"

text \<open>
  \<^verbatim>\<open>INSERT INTO expense_by_category (category, amount, date) VALUES ...\<close>, all of them
  dated \<^verbatim>\<open>CURRENT_DATE\<close>.
\<close>

definition seed_expense :: "generated \<Rightarrow> string \<Rightarrow> string \<Rightarrow> rat \<Rightarrow> jsobj" where
  "seed_expense g today category amount =
     [(''expense_by_category_id'', JStr (gen_random_uuid g)),
      (''category'', JStr category),
      (''amount'', JNum amount),
      (''date'', JStr today),
      (''created_at'', JStr (now g))]"

definition seed_expense_by_category :: "(nat \<Rightarrow> generated) \<Rightarrow> string \<Rightarrow> jsobj list" where
  "seed_expense_by_category gen today =
     [seed_expense (gen 0) today ''Office Supplies'' 500,
      seed_expense (gen 1) today ''Salaries'' 2500,
      seed_expense (gen 2) today ''Utilities'' 300,
      seed_expense (gen 3) today ''Marketing'' 800,
      seed_expense (gen 4) today ''Equipment'' 400]"

text \<open>A database holding the seeded products and expense categories, for the examples.\<close>

definition example_gen :: "nat \<Rightarrow> generated" where
  "example_gen i = \<lparr>gen_random_uuid = ''id-'' @ nat_digits i, now = ''2025-10-28T21:51:38Z''\<rparr>"

definition example_db :: database where
  "example_db =
     \<lparr>products = seed_products example_gen, users = [], sales_summary = [],
      purchase_summary = [], expense_summary = [],
      expense_by_category = seed_expense_by_category example_gen ''2025-10-28''\<rparr>"

text \<open>A backend out of reach: every request is answered with a connectivity error.\<close>

definition unreachable :: "query \<Rightarrow> jsobj list response" where
  "unreachable q = error_reply (pg_error [] ''TypeError: Failed to fetch'')"

text \<open>
  A backend where two of the dashboard's five requests fail, each with its own message,
  and the other three are answered from the example database.
\<close>

definition partly_failing :: "query \<Rightarrow> jsobj list response" where
  "partly_failing q =
     (if q_table q = ''purchase_summary''
      then error_reply (pg_error ''57014'' ''canceling statement due to statement timeout'')
      else if q_table q = ''expense_by_category''
      then error_reply (pg_error [] ''TypeError: Failed to fetch'')
      else pg_select example_db q)"

text \<open>Products that differ in their names, for the examples of patterns.\<close>

definition named_product :: "string \<Rightarrow> string \<Rightarrow> jsobj" where
  "named_product pid n =
     [(''product_id'', JStr pid), (''name'', JStr n), (''price'', JNum 1), (''rating'', JNull),
      (''stock_quantity'', JNum 0), (''created_at'', JStr ''2025-10-28T21:51:38Z''),
      (''updated_at'', JStr ''2025-10-28T21:51:38Z'')]"

definition pen_db :: database where
  "pen_db = example_db\<lparr>products := [named_product ''p1'' ''Pen'']\<rparr>"


text \<open>
  An input of \<open>createProduct\<close> that is well typed (\<^verbatim>\<open>NewProduct\<close>: a name, a price, an
  optional rating, a stock quantity) and meets the constraints of the products table.
\<close>

definition valid_new_product :: "jsobj \<Rightarrow> bool" where
  "valid_new_product np =
     ((case js_get np ''name'' of JStr n \<Rightarrow> True | _ \<Rightarrow> False)
      \<and> (case js_get np ''price'' of JNum p \<Rightarrow> p \<ge> 0 | _ \<Rightarrow> False)
      \<and> (case js_get np ''rating'' of
            JUndefined \<Rightarrow> True
          | JNum r \<Rightarrow> r \<ge> 0 \<and> r \<le> 5
          | _ \<Rightarrow> False)
      \<and> (case js_get np ''stockQuantity'' of
            JNum k \<Rightarrow> k = of_int \<lfloor>k\<rfloor> \<and> k \<ge> 0 \<and> k \<le> 2147483647
          | _ \<Rightarrow> False))"

definition negative_price :: "jsobj \<Rightarrow> bool" where
  "negative_price np = (case js_get np ''price'' of JNum p \<Rightarrow> p < 0 | _ \<Rightarrow> False)"

text \<open>The primary key generated for an insert is not in use.\<close>

definition fresh_id :: "generated \<Rightarrow> database \<Rightarrow> bool" where
  "fresh_id g db =
     (JStr (gen_random_uuid g) \<notin> set (map (\<lambda>r. js_get r ''product_id'') (products db)))"

text \<open>The inputs of the two examples of \<open>createProduct\<close>.\<close>

definition pen :: jsobj where
  "pen = [(''name'', JStr ''Pen''), (''price'', JNum (15 / 10)), (''stockQuantity'', JNum 10)]"

definition bad :: jsobj where
  "bad = [(''name'', JStr ''Bad''), (''price'', JNum (- 1)), (''stockQuantity'', JNum 0)]"

text \<open>A reply whose one product row has a key and nothing else.\<close>

definition bare_row_reply :: "query \<Rightarrow> jsobj list response" where
  "bare_row_reply q = rows_reply [[(''product_id'', JStr ''p1'')]]"

text \<open>A reply with the seeded expense category of amount 2500.\<close>

definition salaries_reply :: "query \<Rightarrow> jsobj list response" where
  "salaries_reply q = rows_reply [seed_expense (example_gen 1) ''2025-10-28'' ''Salaries'' 2500]"

text \<open>A reply whose one expense-by-category row has no amount.\<close>

definition missing_amount_reply :: "query \<Rightarrow> jsobj list response" where
  "missing_amount_reply q = rows_reply [[(''category'', JStr ''Salaries'')]]"


section \<open>Records of the read handlers\<close>





section \<open>Properties of the handlers\<close>

subsection \<open>Mapping rows\<close>

lemma map_throwing_pure: "map_throwing (\<lambda>x. Inr (f x)) xs = Inr (map f xs)"
  by (induction xs) simp_all

lemma data_map_pure: "data_map (\<lambda>x. Inr (f x)) (Some rows) = Inr (map f rows)"
  by (simp add: data_map_def map_throwing_pure)

lemma getProducts_rows:
  assumes "supabase (products_query search) = rows_reply rows"
  shows "getProducts supabase search = Inr (map to_product rows)"
  using assms by (simp add: getProducts_def rows_reply_def catch_500_def data_map_pure)

lemma getProducts_error:
  assumes "error (supabase (products_query search)) = Some e"
  shows "getProducts supabase search = Inl [(''status'', JNum 500), (''data'', JStr (message e))]"
  using assms by (simp add: getProducts_def catch_500_def)

subsection \<open>Pattern matching\<close>

lemma like_percent_all: "like_match ''%'' t"
  by (induction t) auto

lemma like_prefix:
  assumes "\<forall>c \<in> set p. c \<noteq> CHR ''%'' \<and> c \<noteq> CHR ''_'' \<and> c \<noteq> CHR 0x5C"
  shows "like_match (p @ ''%'') t \<longleftrightarrow> prefix p t"
  using assms
proof (induction p arbitrary: t)
  case Nil
  show ?case using like_percent_all by simp
next
  case (Cons a p)
  then show ?case by (cases t) auto
qed

lemma like_percent_suffix:
  "like_match (CHR ''%'' # ps) t \<longleftrightarrow> (\<exists>u. suffix u t \<and> like_match ps u)"
proof (induction t)
  case Nil
  show ?case by simp
next
  case (Cons c cs)
  then show ?case by (auto simp: suffix_Cons)
qed

lemma like_contains:
  assumes "\<forall>c \<in> set s. c \<noteq> CHR ''%'' \<and> c \<noteq> CHR ''_'' \<and> c \<noteq> CHR 0x5C"
  shows "like_match (''%'' @ s @ ''%'') t \<longleftrightarrow> sublist s t"
proof -
  have "like_match (''%'' @ s @ ''%'') t \<longleftrightarrow> (\<exists>u. suffix u t \<and> prefix s u)"
    using like_percent_suffix [of "s @ ''%''" t] like_prefix [OF assms] by simp
  also have "\<dots> \<longleftrightarrow> sublist s t"
    by (auto simp: sublist_def prefix_def suffix_def)
  finally show ?thesis .
qed

lemma to_lower_pattern_char: "pattern_char (to_lower c) \<longleftrightarrow> pattern_char c"
  by (auto simp: to_lower_def pattern_char_def split: if_splits)

lemma star_alias_plain: "\<not> pattern_char c \<Longrightarrow> star_alias c = c"
  by (simp add: star_alias_def pattern_char_def)

lemma ilike_contains:
  assumes "\<forall>c \<in> set s. \<not> pattern_char c"
  shows "ilike_match (''%'' @ s @ ''%'') t \<longleftrightarrow> sublist (map to_lower s) (map to_lower t)"
proof -
  have plain: "map star_alias s = s"
    using assms by (simp add: map_idI star_alias_plain)
  have "\<forall>c \<in> set (map to_lower s). \<not> pattern_char c"
    using assms by (simp add: to_lower_pattern_char)
  then have "\<forall>c \<in> set (map to_lower s). c \<noteq> CHR ''%'' \<and> c \<noteq> CHR ''_'' \<and> c \<noteq> CHR 0x5C"
    by (auto simp: pattern_char_def)
  from like_contains [OF this, of "map to_lower t"] show ?thesis
    by (simp add: ilike_match_def plain star_alias_def to_lower_def)
qed

subsection \<open>The product list against the database\<close>

lemma pg_select_all_products:
  "pg_select db (products_query None) = rows_reply (products db)"
  by (simp add: pg_select_def products_query_def truthy_def select_all_def from_table_def
      table_of_def order_rows_def limit_to_def rows_reply_def)

lemma pg_select_search:
  assumes "s \<noteq> []"
  shows "pg_select db (products_query (Some s)) =
    rows_reply (filter (\<lambda>r. row_matches r (''name'', ''%'' @ s @ ''%'')) (products db))"
  using assms
  by (simp add: pg_select_def products_query_def truthy_def select_all_def from_table_def
      ilike_def table_of_def order_rows_def limit_to_def rows_reply_def)

lemma getProducts_all: "getProducts (pg_select db) None = Inr (map to_product (products db))"
  using getProducts_rows [where supabase = "pg_select db" and search = None]
  by (simp add: pg_select_all_products)

lemma getProducts_search:
  assumes "s \<noteq> []"
  shows "getProducts (pg_select db) (Some s) =
    Inr (map to_product (filter (\<lambda>r. row_matches r (''name'', ''%'' @ s @ ''%'')) (products db)))"
  using getProducts_rows [where supabase = "pg_select db" and search = "Some s"]
  by (simp add: pg_select_search [OF assms])

lemma row_matches_contains:
  assumes "\<forall>c \<in> set s. \<not> pattern_char c"
  shows "row_matches r (''name'', ''%'' @ s @ ''%'') = name_contains s r"
  using ilike_contains [OF assms]
  by (simp add: row_matches_def name_contains_def split: jsval.splits)

text \<open>
  C1, as the code has it. For every search string \<open>s\<close> that holds none of the characters
  \<open>%\<close>, \<open>_\<close>, backslash and \<open>*\<close>, and every products table whose names are texts,
  \<open>getProducts\<close> called with \<open>s\<close> returns, in one reply, exactly the stored products
  whose name contains \<open>s\<close> as a case-insensitive substring; called with no argument it
  returns every product of the table.
\<close>

theorem getProducts_substring_filter:
  assumes "\<forall>c \<in> set s. \<not> pattern_char c"
    and "\<forall>r \<in> set (products db). has_text_name r"
  shows "getProducts (pg_select db) (Some s) =
           Inr (map to_product (filter (name_contains s) (products db)))
       \<and> getProducts (pg_select db) None = Inr (map to_product (products db))"
proof (cases "s = []")
  case True
  have "name_contains [] r" if "has_text_name r" for r
    using that by (simp add: name_contains_def has_text_name_def split: jsval.splits)
  then have "filter (name_contains []) (products db) = products db"
    using assms(2) by (simp add: filter_id_conv)
  moreover have "products_query (Some []) = products_query None"
    by (simp add: products_query_def truthy_def)
  ultimately show ?thesis
    using True getProducts_all [of db] by (simp add: getProducts_def)
next
  case False
  have "filter (\<lambda>r. row_matches r (''name'', ''%'' @ s @ ''%'')) (products db) =
      filter (name_contains s) (products db)"
    using row_matches_contains [OF assms(1)] by simp
  then show ?thesis
    using getProducts_search [OF False, of db] getProducts_all [of db] by simp
qed

theorem getProducts_substring_filter_witness:
  "getProducts (pg_select example_db) (Some ''MOUSE'') =
     Inr (map to_product (filter (name_contains ''MOUSE'') (products example_db)))
   \<and> getProducts (pg_select example_db) None = Inr (map to_product (products example_db))
   \<and> filter (name_contains ''MOUSE'') (products example_db) =
       [seed_product (example_gen 1) ''Wireless Mouse'' (2999 / 100) (42 / 10) 200]"
proof -
  have plain: "\<forall>c \<in> set ''MOUSE''. \<not> pattern_char c"
    by (simp add: pattern_char_def)
  have names: "\<forall>r \<in> set (products example_db). has_text_name r"
    by (simp add: example_db_def seed_products_def seed_product_def stored_product_def
        has_text_name_def js_get_def sent_value_def)
  have "filter (name_contains ''MOUSE'') (products example_db) =
       [seed_product (example_gen 1) ''Wireless Mouse'' (2999 / 100) (42 / 10) 200]"
    by code_simp
  with getProducts_substring_filter [OF plain names] show ?thesis
    by simp
qed

text \<open>
  C1 as stated fails: with the search string \<open>_\<close> the one product of the table,
  named \<open>Pen\<close>, is returned, and its name does not contain an underscore.
\<close>

theorem getProducts_substring_filter_counterexample:
  "getProducts (pg_select pen_db) (Some ''_'') =
     Inr [[(''productId'', JStr ''p1''), (''name'', JStr ''Pen''), (''price'', JNum 1),
           (''rating'', JNull), (''stockQuantity'', JNum 0)]]
   \<and> products pen_db = [named_product ''p1'' ''Pen'']
   \<and> \<not> name_contains ''_'' (named_product ''p1'' ''Pen'')"
  by code_simp


text \<open>
  C9. Called with the empty string, \<open>getProducts\<close> sends the request it sends when called
  with no argument, one without any filter, so the two calls return the same result.
\<close>

theorem getProducts_empty_search:
  "getProducts supabase (Some []) = getProducts supabase None
   \<and> products_query (Some []) = products_query None
   \<and> q_filters (products_query (Some [])) = []"
  by (simp add: getProducts_def products_query_def truthy_def select_all_def from_table_def)

subsection \<open>The dashboard's errors\<close>

text \<open>
  C2. Whatever the five replies are, if at least one of them carries an error then
  \<open>getDashboardMetrics\<close> returns the error envelope made from the first error in the
  order of the five requests, and so no composite object; the rows of the requests that
  succeeded are not returned.
\<close>

theorem getDashboardMetrics_first_error:
  assumes "\<exists>q \<in> set dashboard_queries. failed (supabase q)"
  shows "\<exists>r e. find failed (map supabase dashboard_queries) = Some r \<and> error r = Some e
           \<and> getDashboardMetrics num supabase =
               Inl [(''status'', JNum 500), (''data'', JStr (message e))]"
  using assms
  by (auto simp: dashboard_queries_def failed_def getDashboardMetrics_def catch_500_def Let_def
      split: option.splits)

theorem getDashboardMetrics_first_error_witness:
  "(\<exists>q \<in> set dashboard_queries. failed (partly_failing q))
   \<and> getDashboardMetrics whole_number_text partly_failing =
       Inl [(''status'', JNum 500),
            (''data'', JStr ''canceling statement due to statement timeout'')]"
proof -
  have h: "\<exists>q \<in> set dashboard_queries. failed (partly_failing q)"
    by code_simp
  from getDashboardMetrics_first_error [OF h, of whole_number_text] obtain r e where
    "find failed (map partly_failing dashboard_queries) = Some r" "error r = Some e"
    "getDashboardMetrics whole_number_text partly_failing =
       Inl [(''status'', JNum 500), (''data'', JStr (message e))]"
    by blast
  moreover have "find failed (map partly_failing dashboard_queries) =
      Some (error_reply (pg_error ''57014'' ''canceling statement due to statement timeout''))"
    by code_simp
  ultimately show ?thesis
    using h by (auto simp: error_reply_def pg_error_def)
qed

subsection \<open>Patterns in the search string\<close>












subsection \<open>Ordered reads\<close>

lemma sql_le_numbers: "sql_le (JNum a) (JNum b) \<longleftrightarrow> a \<le> b"
  by (auto simp: sql_le_def ord_key_def less_eq_prod_def)

lemma ascending_by_sort: "ascending_by k (sort_key (\<lambda>r. ord_key (js_get r k)) xs)"
  using sorted_sort_key [of "\<lambda>r. ord_key (js_get r k)" xs]
  by (simp add: ascending_by_def sql_le_def sorted_map)

lemma descending_by_rev_sort: "descending_by k (rev (sort_key (\<lambda>r. ord_key (js_get r k)) xs))"
  using ascending_by_sort [of k xs]
  by (simp add: ascending_by_def descending_by_def sorted_wrt_rev)








lemma pg_select_expense_by_category:
  "pg_select db expense_by_category_query =
     rows_reply (rev (sort_key (\<lambda>r. ord_key (js_get r ''amount'')) (expense_by_category db)))"
  by (simp add: pg_select_def expense_by_category_query_def order_by_def select_all_def
      from_table_def table_of_def order_rows_def limit_to_def rows_reply_def)

text \<open>The composite object, when the five replies carry rows.\<close>

lemma getDashboardMetrics_rows:
  assumes "supabase products_top5_query = rows_reply pr"
    and "supabase sales_summary_query = rows_reply sr"
    and "supabase purchase_summary_query = rows_reply ur"
    and "supabase expense_summary_query = rows_reply er"
    and "supabase expense_by_category_query = rows_reply cr"
  shows "getDashboardMetrics num supabase =
     (case map_throwing (to_expense_by_category num) cr of
        Inl t \<Rightarrow> Inl [(''status'', JNum 500), (''data'', error_message t)]
      | Inr ec \<Rightarrow>
          Inr \<lparr>popularProducts = map to_product pr, salesSummary = map to_sales_summary sr,
               purchaseSummary = map to_purchase_summary ur,
               expenseSummary = map to_expense_summary er, expenseByCategorySummary = ec\<rparr>)"
  using assms
  by (simp add: getDashboardMetrics_def rows_reply_def catch_500_def data_map_pure)
    (simp add: data_map_def split: sum.splits)

lemma map_throwing_Inr:
  "map_throwing f xs = Inr ys \<Longrightarrow> list_all2 (\<lambda>x y. f x = Inr y) xs ys"
  by (induction xs arbitrary: ys) (auto split: sum.splits)

lemma map_throwing_all:
  "(\<And>x. x \<in> set xs \<Longrightarrow> f x = Inr (g x)) \<Longrightarrow> map_throwing f xs = Inr (map g xs)"
  by (induction xs) simp_all

lemma map_throwing_Inl:
  "(\<exists>t. map_throwing f xs = Inl t) \<longleftrightarrow> (\<exists>x \<in> set xs. \<exists>t. f x = Inl t)"
  by (induction xs) (auto split: sum.splits)

lemma to_expense_by_category_view:
  "to_expense_by_category num r = Inr v \<Longrightarrow> expense_by_category_view num r v"
  by (auto simp: to_expense_by_category_def expense_by_category_view_def renamed_def js_get_def
      split: sum.splits)






subsection \<open>Expenses by category\<close>

lemma numeric_amount:
  assumes "has_numeric_amount r"
  shows "js_get r ''amount'' = JNum (amount_of r)"
  using assms by (simp add: has_numeric_amount_def amount_of_def split: jsval.splits)

lemma to_expense_by_category_numeric:
  assumes "has_numeric_amount r"
  shows "to_expense_by_category num r =
     Inr [(''expenseByCategorySummaryId'', js_get r ''expense_by_category_id''),
          (''category'', js_get r ''category''),
          (''amount'', JStr (num (amount_of r))),
          (''date'', js_get r ''date'')]"
  by (simp add: to_expense_by_category_def toString_def numeric_amount [OF assms])

lemma getExpensesByCategory_rows:
  assumes "supabase expense_by_category_query = rows_reply rows"
  shows "getExpensesByCategory num supabase =
     (case map_throwing (to_expense_by_category num) rows of
        Inl t \<Rightarrow> Inl [(''status'', JNum 500), (''data'', error_message t)]
      | Inr vms \<Rightarrow> Inr vms)"
  using assms by (simp add: getExpensesByCategory_def rows_reply_def catch_500_def data_map_def)

text \<open>
  C6. For every stored table of expense-by-category rows (each with a numeric amount, as
  the schema has it), \<open>getExpensesByCategory\<close> succeeds and returns one record for each
  row, in the order of descending amount, and the amount of every record is a text, the
  rendering of the stored number.
\<close>

theorem getExpensesByCategory_sorted_text:
  assumes "\<forall>r \<in> set (expense_by_category db). has_numeric_amount r"
  shows "\<exists>rows vms. getExpensesByCategory num (pg_select db) = Inr vms
           \<and> mset rows = mset (expense_by_category db)
           \<and> sorted_wrt (\<lambda>a b. amount_of b \<le> amount_of a) rows
           \<and> list_all2 (\<lambda>r v. expense_by_category_view num r v
                            \<and> js_get v ''amount'' = JStr (num (amount_of r))) rows vms"
proof -
  let ?rows = "rev (sort_key (\<lambda>r. ord_key (js_get r ''amount'')) (expense_by_category db))"
  let ?vm = "\<lambda>r. [(''expenseByCategorySummaryId'', js_get r ''expense_by_category_id''),
                  (''category'', js_get r ''category''),
                  (''amount'', JStr (num (amount_of r))),
                  (''date'', js_get r ''date'')]"
  have numeric: "has_numeric_amount r" if "r \<in> set ?rows" for r
    using that assms by simp
  have mapped: "map_throwing (to_expense_by_category num) ?rows = Inr (map ?vm ?rows)"
    by (rule map_throwing_all) (simp add: to_expense_by_category_numeric [OF numeric])
  then have result: "getExpensesByCategory num (pg_select db) = Inr (map ?vm ?rows)"
    using getExpensesByCategory_rows [where supabase = "pg_select db",
        OF pg_select_expense_by_category]
    by simp
  have "descending_by ''amount'' ?rows"
    by (rule descending_by_rev_sort)
  then have sorted: "sorted_wrt (\<lambda>a b. amount_of b \<le> amount_of a) ?rows"
    unfolding descending_by_def
    by (rule sorted_wrt_mono_rel [rotated])
      (simp add: numeric_amount [OF numeric] sql_le_numbers)
  have "list_all2 (\<lambda>r v. to_expense_by_category num r = Inr v) ?rows (map ?vm ?rows)"
    using map_throwing_Inr [OF mapped] .
  then have views: "list_all2 (\<lambda>r v. expense_by_category_view num r v
      \<and> js_get v ''amount'' = JStr (num (amount_of r))) ?rows (map ?vm ?rows)"
    by (simp add: list_all2_map2 list_all2_same to_expense_by_category_view js_get_def)
  have "mset ?rows = mset (expense_by_category db)"
    by simp
  with result sorted views show ?thesis
    by blast
qed

theorem getExpensesByCategory_sorted_text_witness:
  "(\<exists>vms. getExpensesByCategory whole_number_text (pg_select example_db) = Inr vms
      \<and> map (\<lambda>v. js_get v ''amount'') vms =
          [JStr ''2500'', JStr ''800'', JStr ''500'', JStr ''400'', JStr ''300''])
   \<and> (\<exists>rows vms. getExpensesByCategory whole_number_text (pg_select example_db) = Inr vms
         \<and> mset rows = mset (expense_by_category example_db)
         \<and> sorted_wrt (\<lambda>a b. amount_of b \<le> amount_of a) rows
         \<and> list_all2 (\<lambda>r v. expense_by_category_view whole_number_text r v
                          \<and> js_get v ''amount'' = JStr (whole_number_text (amount_of r))) rows vms)"
proof -
  have h: "\<forall>r \<in> set (expense_by_category example_db). has_numeric_amount r"
    by (simp add: example_db_def seed_expense_by_category_def seed_expense_def
        has_numeric_amount_def js_get_def)
  have "map (\<lambda>v. js_get v ''amount'')
      (projr (getExpensesByCategory whole_number_text (pg_select example_db))) =
      [JStr ''2500'', JStr ''800'', JStr ''500'', JStr ''400'', JStr ''300'']"
    by code_simp
  with getExpensesByCategory_sorted_text [OF h, of whole_number_text] show ?thesis
    by auto
qed


subsection \<open>Creating a product\<close>

lemma stored_valid_product:
  assumes "valid_new_product np"
  shows "js_get (stored_product g (new_product_row np)) ''name'' = js_get np ''name''"
    and "js_get (stored_product g (new_product_row np)) ''price'' = js_get np ''price''"
    and "js_get (stored_product g (new_product_row np)) ''rating'' =
           (if js_get np ''rating'' = JUndefined then JNull else js_get np ''rating'')"
    and "js_get (stored_product g (new_product_row np)) ''stock_quantity'' =
           js_get np ''stockQuantity''"
    and "js_get (stored_product g (new_product_row np)) ''product_id'' = JStr (gen_random_uuid g)"
  using assms
  by (auto simp: valid_new_product_def stored_product_def new_product_row_def sent_value_def
      js_get_def split: jsval.splits option.splits)

lemma valid_product_accepted:
  assumes "valid_new_product np" and "fresh_id g db"
  shows "product_violation (products db) (stored_product g (new_product_row np)) = None"
  using assms unfolding product_violation_def stored_valid_product [OF assms(1)]
  by (auto simp: valid_new_product_def fresh_id_def is_text_def is_numeric_def is_integer_def
      num_in_def split: jsval.splits)

lemma negative_price_refused:
  assumes "negative_price np"
  shows "\<exists>e. product_violation (products db) (stored_product g (new_product_row np)) = Some e"
proof -
  from assms obtain p where "js_get np ''price'' = JNum p" "p < 0"
    by (auto simp: negative_price_def split: jsval.splits)
  then have "js_get (stored_product g (new_product_row np)) ''price'' = JNum p"
    by (simp add: stored_product_def new_product_row_def sent_value_def js_get_def)
  with \<open>p < 0\<close> show ?thesis
    by (simp add: product_violation_def num_in_def)
qed

lemma createProduct_refused:
  assumes "product_violation (products db) (stored_product g (new_product_row np)) = Some e"
  shows "createProduct (pg_insert g) np db =
     (Inl [(''status'', JNum 500), (''data'', JStr (message e))], db)"
  using assms
  by (simp add: createProduct_def pg_insert_def insert_single_def catch_500_def)

lemma createProduct_accepted:
  assumes "product_violation (products db) (stored_product g (new_product_row np)) = None"
  shows "createProduct (pg_insert g) np db =
     (Inr (to_product (stored_product g (new_product_row np))),
      db\<lparr>products := products db @ [stored_product g (new_product_row np)]\<rparr>)"
  using assms
  by (simp add: createProduct_def pg_insert_def insert_single_def catch_500_def Let_def)

text \<open>
  C7. \<open>createProduct\<close> with a valid input (and a generated key that is not in use)
  returns the view model of the one created row, its \<open>productId\<close> the key the database
  generated, the row is appended to the products table, and a following \<open>getProducts\<close>
  with no argument returns the products of before and the created one. With an input the
  products table refuses, an input of negative price among them, \<open>createProduct\<close> returns
  the error envelope and the database is unchanged.
\<close>

theorem createProduct_persists_or_rejects:
  "(valid_new_product np \<and> fresh_id g db \<longrightarrow>
      (\<exists>created. createProduct (pg_insert g) np db =
           (Inr created, db\<lparr>products := products db @ [stored_product g (new_product_row np)]\<rparr>)
         \<and> created = to_product (stored_product g (new_product_row np))
         \<and> js_get created ''productId'' = JStr (gen_random_uuid g)
         \<and> js_get created ''name'' = js_get np ''name''
         \<and> js_get created ''price'' = js_get np ''price''
         \<and> js_get created ''stockQuantity'' = js_get np ''stockQuantity''
         \<and> getProducts (pg_select (snd (createProduct (pg_insert g) np db))) None =
             Inr (map to_product (products db) @ [created])))
   \<and> (negative_price np \<longrightarrow>
        (\<exists>envelope. createProduct (pg_insert g) np db = (Inl envelope, db)))
   \<and> (product_violation (products db) (stored_product g (new_product_row np)) = Some e \<longrightarrow>
        createProduct (pg_insert g) np db =
          (Inl [(''status'', JNum 500), (''data'', JStr (message e))], db))"
proof (intro conjI impI)
  assume ok: "valid_new_product np \<and> fresh_id g db"
  let ?row = "stored_product g (new_product_row np)"
  have created: "createProduct (pg_insert g) np db =
      (Inr (to_product ?row), db\<lparr>products := products db @ [?row]\<rparr>)"
    using ok by (simp add: createProduct_accepted valid_product_accepted)
  have fields: "js_get (to_product ?row) ''productId'' = JStr (gen_random_uuid g)"
    "js_get (to_product ?row) ''name'' = js_get np ''name''"
    "js_get (to_product ?row) ''price'' = js_get np ''price''"
    "js_get (to_product ?row) ''stockQuantity'' = js_get np ''stockQuantity''"
    using ok stored_valid_product [of np g]
    by (simp_all add: to_product_def js_get_def [of "(''productId'', _) # _"])
  have "getProducts (pg_select (db\<lparr>products := products db @ [?row]\<rparr>)) None =
      Inr (map to_product (products db) @ [to_product ?row])"
    by (simp add: getProducts_all)
  with created fields show "\<exists>created. createProduct (pg_insert g) np db =
           (Inr created, db\<lparr>products := products db @ [?row]\<rparr>)
         \<and> created = to_product ?row
         \<and> js_get created ''productId'' = JStr (gen_random_uuid g)
         \<and> js_get created ''name'' = js_get np ''name''
         \<and> js_get created ''price'' = js_get np ''price''
         \<and> js_get created ''stockQuantity'' = js_get np ''stockQuantity''
         \<and> getProducts (pg_select (snd (createProduct (pg_insert g) np db))) None =
             Inr (map to_product (products db) @ [created])"
    by simp
next
  assume "negative_price np"
  then obtain e where
    "product_violation (products db) (stored_product g (new_product_row np)) = Some e"
    using negative_price_refused by blast
  then show "\<exists>envelope. createProduct (pg_insert g) np db = (Inl envelope, db)"
    by (simp add: createProduct_refused)
next
  assume "product_violation (products db) (stored_product g (new_product_row np)) = Some e"
  then show "createProduct (pg_insert g) np db =
      (Inl [(''status'', JNum 500), (''data'', JStr (message e))], db)"
    by (rule createProduct_refused)
qed

theorem createProduct_persists_or_rejects_witness:
  "(\<exists>db'. createProduct (pg_insert (example_gen 8)) pen example_db =
       (Inr [(''productId'', JStr ''id-8''), (''name'', JStr ''Pen''), (''price'', JNum (3 / 2)),
             (''rating'', JNull), (''stockQuantity'', JNum 10)], db')
      \<and> getProducts (pg_select db') None =
          Inr (map to_product (products example_db) @
               [[(''productId'', JStr ''id-8''), (''name'', JStr ''Pen''), (''price'', JNum (3 / 2)),
                 (''rating'', JNull), (''stockQuantity'', JNum 10)]]))
   \<and> createProduct (pg_insert (example_gen 8)) bad example_db =
       (Inl [(''status'', JNum 500),
             (''data'', JStr ''new row for relation products violates check constraint products_price_check'')],
        example_db)"
proof -
  have v: "valid_new_product pen \<and> fresh_id (example_gen 8) example_db"
    by code_simp
  have row: "to_product (stored_product (example_gen 8) (new_product_row pen)) =
      [(''productId'', JStr ''id-8''), (''name'', JStr ''Pen''), (''price'', JNum (3 / 2)),
       (''rating'', JNull), (''stockQuantity'', JNum 10)]"
    by code_simp
  have b: "product_violation (products example_db)
      (stored_product (example_gen 8) (new_product_row bad)) =
      Some (pg_error ''23514''
        ''new row for relation products violates check constraint products_price_check'')"
    by code_simp
  from createProduct_persists_or_rejects [of pen "example_gen 8" example_db] v
  obtain created where c:
    "createProduct (pg_insert (example_gen 8)) pen example_db =
       (Inr created, example_db\<lparr>products := products example_db @
          [stored_product (example_gen 8) (new_product_row pen)]\<rparr>)"
    "created = to_product (stored_product (example_gen 8) (new_product_row pen))"
    "getProducts (pg_select (snd (createProduct (pg_insert (example_gen 8)) pen example_db))) None =
       Inr (map to_product (products example_db) @ [created])"
    by blast
  then have "\<exists>db'. createProduct (pg_insert (example_gen 8)) pen example_db =
       (Inr [(''productId'', JStr ''id-8''), (''name'', JStr ''Pen''), (''price'', JNum (3 / 2)),
             (''rating'', JNull), (''stockQuantity'', JNum 10)], db')
      \<and> getProducts (pg_select db') None =
          Inr (map to_product (products example_db) @
               [[(''productId'', JStr ''id-8''), (''name'', JStr ''Pen''), (''price'', JNum (3 / 2)),
                 (''rating'', JNull), (''stockQuantity'', JNum 10)]])"
    using row by (intro exI [of _ "snd (createProduct (pg_insert (example_gen 8)) pen example_db)"])
      simp
  moreover from createProduct_persists_or_rejects [of bad "example_gen 8" example_db] b
  have "createProduct (pg_insert (example_gen 8)) bad example_db =
       (Inl [(''status'', JNum 500),
             (''data'', JStr ''new row for relation products violates check constraint products_price_check'')],
        example_db)"
    by (simp add: pg_error_def)
  ultimately show ?thesis
    by simp
qed


subsection \<open>The error envelope\<close>

lemma getUsers_error:
  assumes "error (supabase (select_all (from_table ''users''))) = Some e"
  shows "getUsers supabase = Inl [(''status'', JNum 500), (''data'', JStr (message e))]"
  using assms by (simp add: getUsers_def catch_500_def)

lemma getExpensesByCategory_error:
  assumes "error (supabase expense_by_category_query) = Some e"
  shows "getExpensesByCategory num supabase =
     Inl [(''status'', JNum 500), (''data'', JStr (message e))]"
  using assms by (simp add: getExpensesByCategory_def catch_500_def)

lemma getDashboardMetrics_error:
  assumes "find failed (map supabase dashboard_queries) = Some r" and "error r = Some e"
  shows "getDashboardMetrics num supabase =
     Inl [(''status'', JNum 500), (''data'', JStr (message e))]"
  using assms
  by (auto simp: dashboard_queries_def failed_def getDashboardMetrics_def catch_500_def Let_def
      split: option.splits if_splits)

lemma createProduct_error:
  assumes "error (fst (supabase (insert_single ''products'' (new_product_row np)) st)) = Some e"
  shows "fst (createProduct supabase np st) =
     Inl [(''status'', JNum 500), (''data'', JStr (message e))]"
  using assms
  by (cases "supabase (insert_single ''products'' (new_product_row np)) st")
    (simp add: createProduct_def catch_500_def)

text \<open>
  C4, as the code has it. In each of the five handlers a failure of the backend (a reply
  that carries an error, whatever its cause; for the dashboard the first such reply)
  gives the error envelope of one shape, an object with the two properties \<open>status\<close> and
  \<open>data\<close>: \<open>status\<close> is the number 500 and \<open>data\<close> is the message of the backend's
  error, unchanged.
\<close>

theorem backend_failure_envelope:
  "(error (supabase (products_query search)) = Some e \<longrightarrow>
      getProducts supabase search = Inl [(''status'', JNum 500), (''data'', JStr (message e))])
   \<and> (error (supabase (select_all (from_table ''users''))) = Some e \<longrightarrow>
      getUsers supabase = Inl [(''status'', JNum 500), (''data'', JStr (message e))])
   \<and> (error (supabase expense_by_category_query) = Some e \<longrightarrow>
      getExpensesByCategory num supabase =
        Inl [(''status'', JNum 500), (''data'', JStr (message e))])
   \<and> (find failed (map supabase dashboard_queries) = Some r \<and> error r = Some e \<longrightarrow>
      getDashboardMetrics num supabase =
        Inl [(''status'', JNum 500), (''data'', JStr (message e))])
   \<and> (error (fst (client (insert_single ''products'' (new_product_row np)) st)) = Some e \<longrightarrow>
      fst (createProduct client np st) =
        Inl [(''status'', JNum 500), (''data'', JStr (message e))])"
  using getProducts_error [of supabase search e] getUsers_error [of supabase e]
    getExpensesByCategory_error [of supabase e num]
    getDashboardMetrics_error [of supabase r e num]
    createProduct_error [of client np st e]
  by blast

theorem backend_failure_envelope_witness:
  "getProducts unreachable None =
     Inl [(''status'', JNum 500), (''data'', JStr ''TypeError: Failed to fetch'')]
   \<and> getUsers unreachable =
     Inl [(''status'', JNum 500), (''data'', JStr ''TypeError: Failed to fetch'')]
   \<and> getExpensesByCategory whole_number_text unreachable =
     Inl [(''status'', JNum 500), (''data'', JStr ''TypeError: Failed to fetch'')]
   \<and> getDashboardMetrics whole_number_text unreachable =
     Inl [(''status'', JNum 500), (''data'', JStr ''TypeError: Failed to fetch'')]
   \<and> fst (createProduct (pg_insert (example_gen 8)) bad example_db) =
     Inl [(''status'', JNum 500),
          (''data'', JStr ''new row for relation products violates check constraint products_price_check'')]"
proof -
  let ?e = "pg_error [] ''TypeError: Failed to fetch''"
  let ?c = "pg_error ''23514''
    ''new row for relation products violates check constraint products_price_check''"
  have 1: "error (unreachable q) = Some ?e" for q
    by (simp add: unreachable_def error_reply_def)
  have 2: "find failed (map unreachable dashboard_queries) = Some (error_reply ?e)
      \<and> error (error_reply ?e :: jsobj list response) = Some ?e"
    by (simp add: dashboard_queries_def unreachable_def error_reply_def failed_def)
  have 3: "error (fst (pg_insert (example_gen 8)
      (insert_single ''products'' (new_product_row bad)) example_db)) = Some ?c"
    by code_simp
  from backend_failure_envelope [of unreachable None ?e whole_number_text "error_reply ?e"
      "pg_insert (example_gen 8)" bad example_db] 1 2
  have "getProducts unreachable None =
       Inl [(''status'', JNum 500), (''data'', JStr ''TypeError: Failed to fetch'')]
     \<and> getUsers unreachable =
       Inl [(''status'', JNum 500), (''data'', JStr ''TypeError: Failed to fetch'')]
     \<and> getExpensesByCategory whole_number_text unreachable =
       Inl [(''status'', JNum 500), (''data'', JStr ''TypeError: Failed to fetch'')]
     \<and> getDashboardMetrics whole_number_text unreachable =
       Inl [(''status'', JNum 500), (''data'', JStr ''TypeError: Failed to fetch'')]"
    by (simp add: pg_error_def)
  moreover from backend_failure_envelope [of unreachable None ?c whole_number_text
      "error_reply ?c" "pg_insert (example_gen 8)" bad example_db] 3
  have "fst (createProduct (pg_insert (example_gen 8)) bad example_db) =
     Inl [(''status'', JNum 500),
          (''data'', JStr ''new row for relation products violates check constraint products_price_check'')]"
    by (simp add: pg_error_def)
  ultimately show ?thesis
    by simp
qed

text \<open>
  C4 as stated fails on the shape: the envelope has no property \<open>message\<close>. The
  backend's message is under \<open>data\<close>.
\<close>

theorem backend_failure_envelope_counterexample:
  "getProducts unreachable None =
     Inl [(''status'', JNum 500), (''data'', JStr ''TypeError: Failed to fetch'')]
   \<and> js_get (projl (getProducts unreachable None)) ''message'' = JUndefined
   \<and> js_get (projl (getProducts unreachable None)) ''data'' = JStr ''TypeError: Failed to fetch''
   \<and> error (unreachable (products_query None)) =
       Some \<lparr>message = ''TypeError: Failed to fetch'', details = [], hint = [], code = []\<rparr>"
  by code_simp

subsection \<open>Field names and missing fields\<close>






















lemma amount_missing_throws:
  "(\<exists>t. to_expense_by_category num r = Inl t) \<longleftrightarrow> amount_missing r"
  by (auto simp: to_expense_by_category_def toString_def amount_missing_def split: jsval.splits)

lemma isl_envelope:
  "isl (case x of Inl t \<Rightarrow> Inl (f t) | Inr v \<Rightarrow> Inr (g v)) \<longleftrightarrow> (\<exists>t. x = Inl t)"
  by (cases x) simp_all

lemma getExpensesByCategory_fails_iff:
  assumes "supabase expense_by_category_query = rows_reply rows"
  shows "isl (getExpensesByCategory num supabase) \<longleftrightarrow> (\<exists>r \<in> set rows. amount_missing r)"
  using isl_envelope [of _ "\<lambda>v. v" "map_throwing (to_expense_by_category num) rows"]
    getExpensesByCategory_rows [where supabase = supabase and rows = rows and num = num] assms
  by (simp add: map_throwing_Inl amount_missing_throws)

lemma getDashboardMetrics_fails_iff:
  assumes "supabase products_top5_query = rows_reply pr"
    and "supabase sales_summary_query = rows_reply sr"
    and "supabase purchase_summary_query = rows_reply ur"
    and "supabase expense_summary_query = rows_reply er"
    and "supabase expense_by_category_query = rows_reply cr"
  shows "isl (getDashboardMetrics num supabase) \<longleftrightarrow> (\<exists>r \<in> set cr. amount_missing r)"
  using getDashboardMetrics_rows [where supabase = supabase and num = num and pr = pr
      and sr = sr and ur = ur and er = er and cr = cr] assms
  by (simp add: isl_envelope map_throwing_Inl amount_missing_throws)

lemma getUsers_rows:
  assumes "supabase (select_all (from_table ''users'')) = rows_reply rows"
  shows "getUsers supabase = Inr (map to_user rows)"
  using assms by (simp add: getUsers_def rows_reply_def catch_500_def data_map_pure)

lemma createProduct_row:
  assumes "client (insert_single ''products'' (new_product_row np)) st = (rows_reply row, st')"
  shows "createProduct client np st = (Inr (to_product row), st')"
  using assms by (simp add: createProduct_def rows_reply_def catch_500_def)

lemma js_get_missing: "k \<notin> fst ` set r \<Longrightarrow> js_get r k = JUndefined"
  using map_of_eq_None_iff [of r k] by (simp add: js_get_def)

text \<open>
  C8, as the code has it. The mapping of rows checks nothing: whatever the rows of a
  reply lack, \<open>getProducts\<close>, \<open>getUsers\<close> and \<open>createProduct\<close> succeed, and a field the
  row lacks is \<open>undefined\<close> in the view model. The one mapping that can fail is that of
  an expense-by-category row, where \<open>toString\<close> is called on the amount:
  \<open>getExpensesByCategory\<close> and \<open>getDashboardMetrics\<close> return the error envelope exactly
  when the amount of some expense-by-category row is \<open>null\<close> or missing.
\<close>

theorem missing_fields_pass_through:
  "(supabase (products_query search) = rows_reply rows \<longrightarrow>
      getProducts supabase search = Inr (map to_product rows))
   \<and> (supabase (select_all (from_table ''users'')) = rows_reply rows \<longrightarrow>
      getUsers supabase = Inr (map to_user rows))
   \<and> (client (insert_single ''products'' (new_product_row np)) st = (rows_reply row, st') \<longrightarrow>
      createProduct client np st = (Inr (to_product row), st'))
   \<and> (''name'' \<notin> fst ` set r \<longrightarrow> js_get (to_product r) ''name'' = JUndefined)
   \<and> (supabase expense_by_category_query = rows_reply rows \<longrightarrow>
      (isl (getExpensesByCategory num supabase) \<longleftrightarrow> (\<exists>r \<in> set rows. amount_missing r)))
   \<and> (supabase products_top5_query = rows_reply pr
       \<and> supabase sales_summary_query = rows_reply sr
       \<and> supabase purchase_summary_query = rows_reply ur
       \<and> supabase expense_summary_query = rows_reply er
       \<and> supabase expense_by_category_query = rows_reply rows \<longrightarrow>
      (isl (getDashboardMetrics num supabase) \<longleftrightarrow> (\<exists>r \<in> set rows. amount_missing r)))"
proof (intro conjI impI)
  assume "''name'' \<notin> fst ` set r"
  then show "js_get (to_product r) ''name'' = JUndefined"
    using js_get_missing [of "''name''" r] by (simp add: to_product_def js_get_def)
qed (simp_all add: getProducts_rows getUsers_rows createProduct_row
    getExpensesByCategory_fails_iff getDashboardMetrics_fails_iff)

theorem missing_fields_pass_through_witness:
  "getProducts bare_row_reply None = Inr (map to_product [[(''product_id'', JStr ''p1'')]])
   \<and> js_get (to_product [(''product_id'', JStr ''p1'')]) ''name'' = JUndefined
   \<and> isl (getExpensesByCategory whole_number_text missing_amount_reply)
   \<and> \<not> isl (getExpensesByCategory whole_number_text salaries_reply)"
proof -
  have 1: "bare_row_reply (products_query None) = rows_reply [[(''product_id'', JStr ''p1'')]]"
    by (simp add: bare_row_reply_def)
  have 2: "''name'' \<notin> fst ` set [(''product_id'', JStr ''p1'')]"
    by simp
  have 3: "missing_amount_reply expense_by_category_query =
      rows_reply [[(''category'', JStr ''Salaries'')]]"
    by (simp add: missing_amount_reply_def)
  have 4: "\<exists>r \<in> set [[(''category'', JStr ''Salaries'')]]. amount_missing r"
    by (simp add: amount_missing_def js_get_def)
  have 5: "salaries_reply expense_by_category_query =
      rows_reply [seed_expense (example_gen 1) ''2025-10-28'' ''Salaries'' 2500]"
    by (simp add: salaries_reply_def)
  have 6: "\<not> (\<exists>r \<in> set [seed_expense (example_gen 1) ''2025-10-28'' ''Salaries'' 2500].
      amount_missing r)"
    by (simp add: amount_missing_def seed_expense_def js_get_def)
  note p = missing_fields_pass_through [where supabase = bare_row_reply and search = None
      and rows = "[[(''product_id'', JStr ''p1'')]]" and r = "[(''product_id'', JStr ''p1'')]"]
  from p [THEN conjunct1] 1
  have a: "getProducts bare_row_reply None = Inr (map to_product [[(''product_id'', JStr ''p1'')]])"
    by simp
  from p [THEN conjunct2, THEN conjunct2, THEN conjunct2, THEN conjunct1] 2
  have a': "js_get (to_product [(''product_id'', JStr ''p1'')]) ''name'' = JUndefined"
    by simp
  note q = missing_fields_pass_through [where supabase = missing_amount_reply
      and rows = "[[(''category'', JStr ''Salaries'')]]" and num = whole_number_text]
  from q [THEN conjunct2, THEN conjunct2, THEN conjunct2, THEN conjunct2, THEN conjunct1] 3 4
  have b: "isl (getExpensesByCategory whole_number_text missing_amount_reply)"
    by simp
  note s = missing_fields_pass_through [where supabase = salaries_reply
      and rows = "[seed_expense (example_gen 1) ''2025-10-28'' ''Salaries'' 2500]"
      and num = whole_number_text]
  from s [THEN conjunct2, THEN conjunct2, THEN conjunct2, THEN conjunct2, THEN conjunct1] 5 6
  have c: "\<not> isl (getExpensesByCategory whole_number_text salaries_reply)"
    by simp
  from a a' b c show ?thesis
    by simp
qed

text \<open>
  C8 as stated fails: a product row with no name, price or stock quantity is not
  refused. \<open>getProducts\<close> succeeds and returns a view model whose fields are
  \<open>undefined\<close>.
\<close>

theorem missing_fields_pass_through_counterexample:
  "getProducts bare_row_reply None =
     Inr [[(''productId'', JStr ''p1''), (''name'', JUndefined), (''price'', JUndefined),
           (''rating'', JUndefined), (''stockQuantity'', JUndefined)]]
   \<and> bare_row_reply (products_query None) = rows_reply [[(''product_id'', JStr ''p1'')]]"
  by code_simp


end
